theory Spec2Isabelle
  imports Main
begin

section \<open>Python values used by the backend\<close>

text \<open>
  Strings are lists of characters, one \<open>char\<close> per Python character; the keys, provider
  tags and table names handled here are ASCII. The one non-ASCII character of the source,
  the cross mark that opens both error messages, is written as its three UTF-8 bytes.
  Console output (\<open>print\<close>) is not part of the model.
\<close>

text \<open>
  Raised exceptions. \<open>ValueError\<close> is the only class the backend raises itself;
  \<open>OtherException\<close> stands for any other subclass of \<open>Exception\<close> (raised by a
  library); \<open>NonException\<close> stands for what derives from \<open>BaseException\<close> only
  (\<open>KeyboardInterrupt\<close>, \<open>SystemExit\<close>), which \<open>except Exception\<close> lets through.
\<close>

datatype exn = ValueError string | OtherException string | NonException string

fun is_Exception :: "exn \<Rightarrow> bool" where
  "is_Exception (ValueError _) = True"
| "is_Exception (OtherException _) = True"
| "is_Exception (NonException _) = False"

definition cross_mark :: string where
  "cross_mark = [CHR 0xE2, CHR 0x9D, CHR 0x8C]"

definition newline :: string where
  "newline = [CHR 0x0A]"

definition quoted :: "string \<Rightarrow> string" where
  "quoted s = [CHR 0x27] @ s @ [CHR 0x27]"

text \<open>\<open>str.lower()\<close> on ASCII letters; every other character is left as it is.\<close>

definition lower_char :: "char \<Rightarrow> char" where
  "lower_char c =
     (case map_of (zip ''ABCDEFGHIJKLMNOPQRSTUVWXYZ'' ''abcdefghijklmnopqrstuvwxyz'') c of
        Some d \<Rightarrow> d
      | None \<Rightarrow> c)"

definition lower :: "string \<Rightarrow> string" where
  "lower s = map lower_char s"

text \<open>\<open>a or b\<close> on an optional string: \<open>None\<close> and the empty string are both falsy.\<close>

definition str_or :: "string option \<Rightarrow> string \<Rightarrow> string" where
  "str_or a b = (case a of None \<Rightarrow> b | Some s \<Rightarrow> if s = [] then b else s)"

text \<open>\<open>s[-4:]\<close>: the last four characters, the whole string when it has fewer.\<close>

definition last4 :: "string \<Rightarrow> string" where
  "last4 s = drop (length s - 4) s"

text \<open>The process environment, and \<open>os.getenv(key, default)\<close>.\<close>

type_synonym environ = "string \<rightharpoonup> string"

definition getenv :: "environ \<Rightarrow> string \<Rightarrow> string \<Rightarrow> string" where
  "getenv env k d = (case env k of Some v \<Rightarrow> v | None \<Rightarrow> d)"

section \<open>config/constants.py\<close>

definition APP_NAME :: string where "APP_NAME = ''Agno Smart Assistant''"
definition APP_VERSION :: string where "APP_VERSION = ''1.0.0''"
definition APP_DESCRIPTION :: string where
  "APP_DESCRIPTION = ''Multi-agent AI assistant powered by Agno''"
definition DEFAULT_DB_FILE :: string where "DEFAULT_DB_FILE = ''agno.db''"
definition DEFAULT_VECTOR_DB_FILE :: string where "DEFAULT_VECTOR_DB_FILE = ''vector.db''"
definition DEFAULT_MODEL_ID :: string where "DEFAULT_MODEL_ID = ''gpt-4''"
definition DEFAULT_MCP_URL :: string where "DEFAULT_MCP_URL = ''https://docs.agno.com/mcp''"
definition DEFAULT_PORT :: int where "DEFAULT_PORT = 8000"
definition DEFAULT_HOST :: string where "DEFAULT_HOST = ''0.0.0.0''"
definition DEFAULT_LOG_LEVEL :: string where "DEFAULT_LOG_LEVEL = ''info''"

text \<open>The three per-agent dictionaries, all with the same six keys.\<close>

record agent_constants =
  const_name :: string
  const_description :: string
  const_instructions :: "string list"
  const_db_table :: string
  const_show_tool_calls :: bool
  const_add_datetime_to_context :: bool

definition CONVERSATION_AGENT_CONFIG :: agent_constants where
  "CONVERSATION_AGENT_CONFIG = \<lparr>
     const_name = ''Agno Smart Assistant'',
     const_description = ''Main conversational agent with tool access'',
     const_instructions =
       [''You are a helpful AI assistant powered by Agno.'',
        ''You have access to tools and can perform tasks.'',
        ''Always be concise, clear, and helpful.''],
     const_db_table = ''agno-smart-assistant'',
     const_show_tool_calls = True,
     const_add_datetime_to_context = True \<rparr>"

definition RESEARCH_AGENT_CONFIG :: agent_constants where
  "RESEARCH_AGENT_CONFIG = \<lparr>
     const_name = ''Research Agent'',
     const_description = ''Specialized agent for research and analysis'',
     const_instructions =
       [''You are a research specialist.'',
        ''Help users find, analyze, and synthesize information.'',
        ''Provide well-structured and detailed responses.''],
     const_db_table = ''research-agent'',
     const_show_tool_calls = True,
     const_add_datetime_to_context = False \<rparr>"

definition ASSIST_AGENT_CONFIG :: agent_constants where
  "ASSIST_AGENT_CONFIG = \<lparr>
     const_name = ''Agno Assist'',
     const_description =
       ''Documentation assistant using RAG for Agno framework questions'',
     const_instructions =
       [''You help answer questions about the Agno framework.'',
        ''Search your knowledge before answering the question.'',
        ''Provide accurate answers grounded in the documentation.'',
        ''If information is not in the documentation, say so clearly.''],
     const_db_table = ''assist-agent'',
     const_show_tool_calls = True,
     const_add_datetime_to_context = True \<rparr>"

section \<open>config/settings.py\<close>

record OpenAIConfig =
  openai_api_key :: string

record AnthropicConfig =
  anthropic_api_key :: string

record DatabaseConfig =
  db_file :: string
  vector_db_file :: string

record ModelConfig =
  provider :: string
  model_id :: string

record AgentConfig =
  agent_model_id :: string
  mcp_url :: string

record ServerConfig =
  host :: string
  port :: int
  reload :: bool
  log_level :: string

record AppConfig =
  name :: string
  version :: string
  description :: string
  openai :: OpenAIConfig
  anthropic :: AnthropicConfig
  model :: ModelConfig
  database :: DatabaseConfig
  agent :: AgentConfig
  server :: ServerConfig

definition OpenAIConfig_from_env :: "environ \<Rightarrow> OpenAIConfig" where
  "OpenAIConfig_from_env env = \<lparr> openai_api_key = getenv env ''OPENAI_API_KEY'' [] \<rparr>"

definition AnthropicConfig_from_env :: "environ \<Rightarrow> AnthropicConfig" where
  "AnthropicConfig_from_env env =
     \<lparr> anthropic_api_key = getenv env ''ANTHROPIC_API_KEY'' [] \<rparr>"

definition DatabaseConfig_from_env :: "environ \<Rightarrow> DatabaseConfig" where
  "DatabaseConfig_from_env env =
     \<lparr> db_file = getenv env ''AGNO_DB_FILE'' DEFAULT_DB_FILE,
       vector_db_file = getenv env ''VECTOR_DB_FILE'' DEFAULT_VECTOR_DB_FILE \<rparr>"

text \<open>\<open>default_models.get(provider, "gpt-4")\<close> of \<open>ModelConfig.from_env\<close>.\<close>

definition default_models :: "string \<rightharpoonup> string" where
  "default_models =
     [''openai'' \<mapsto> ''gpt-4'', ''anthropic'' \<mapsto> ''claude-3-5-sonnet-20241022'']"

definition ModelConfig_from_env :: "environ \<Rightarrow> ModelConfig" where
  "ModelConfig_from_env env =
     (let provider = lower (getenv env ''MODEL_PROVIDER'' ''openai'');
          model_id = getenv env ''MODEL_ID''
            (case default_models provider of Some m \<Rightarrow> m | None \<Rightarrow> ''gpt-4'')
      in \<lparr> provider = provider, model_id = model_id \<rparr>)"

definition AgentConfig_from_env :: "environ \<Rightarrow> AgentConfig" where
  "AgentConfig_from_env env =
     \<lparr> agent_model_id = getenv env ''AGNO_MODEL_ID'' DEFAULT_MODEL_ID,
       mcp_url = getenv env ''AGNO_MCP_URL'' DEFAULT_MCP_URL \<rparr>"

text \<open>
  Python's built-in \<open>int(str)\<close> is taken as a parameter \<open>int_of_str\<close>, with \<open>None\<close>
  for the \<open>ValueError\<close> that \<open>ServerConfig.from_env\<close> catches.
\<close>

definition ServerConfig_from_env :: "(string \<Rightarrow> int option) \<Rightarrow> environ \<Rightarrow> ServerConfig" where
  "ServerConfig_from_env int_of_str env =
     (let reload_str = lower (getenv env ''RELOAD'' ''true'');
          reload = (reload_str \<in> set [''true'', ''1'', ''yes'']);
          port_str = getenv env ''PORT'' ''8000'';
          port = (case int_of_str port_str of Some n \<Rightarrow> n | None \<Rightarrow> DEFAULT_PORT)
      in \<lparr> host = getenv env ''HOST'' DEFAULT_HOST,
           port = port,
           reload = reload,
           log_level = getenv env ''LOG_LEVEL'' DEFAULT_LOG_LEVEL \<rparr>)"

definition no_api_key_message :: "string \<Rightarrow> string" where
  "no_api_key_message current_provider =
     cross_mark @ '' No API key configured.'' @ newline @
     ''   Set either OPENAI_API_KEY or ANTHROPIC_API_KEY'' @ newline @
     ''   Current provider: '' @ current_provider"

text \<open>
  The dataclass constructor followed by \<open>__post_init__\<close>: a sub-configuration passed as
  \<open>None\<close> is read from the environment, then the two API keys are validated.
\<close>

definition AppConfig_init ::
  "(string \<Rightarrow> int option) \<Rightarrow> environ \<Rightarrow> string \<Rightarrow> string \<Rightarrow> string \<Rightarrow>
   OpenAIConfig option \<Rightarrow> AnthropicConfig option \<Rightarrow> ModelConfig option \<Rightarrow>
   DatabaseConfig option \<Rightarrow> AgentConfig option \<Rightarrow> ServerConfig option \<Rightarrow> exn + AppConfig" where
  "AppConfig_init int_of_str env nm ver descr oa an mo da ag se =
     (let self = \<lparr>
            name = nm, version = ver, description = descr,
            openai = (case oa of None \<Rightarrow> OpenAIConfig_from_env env | Some c \<Rightarrow> c),
            anthropic = (case an of None \<Rightarrow> AnthropicConfig_from_env env | Some c \<Rightarrow> c),
            model = (case mo of None \<Rightarrow> ModelConfig_from_env env | Some c \<Rightarrow> c),
            database = (case da of None \<Rightarrow> DatabaseConfig_from_env env | Some c \<Rightarrow> c),
            agent = (case ag of None \<Rightarrow> AgentConfig_from_env env | Some c \<Rightarrow> c),
            server = (case se of None \<Rightarrow> ServerConfig_from_env int_of_str env | Some c \<Rightarrow> c) \<rparr>
      in if openai_api_key (openai self) = [] \<and> anthropic_api_key (anthropic self) = []
         then Inl (ValueError (no_api_key_message (provider (model self))))
         else Inr self)"

definition AppConfig_from_env :: "(string \<Rightarrow> int option) \<Rightarrow> environ \<Rightarrow> exn + AppConfig" where
  "AppConfig_from_env int_of_str env =
     AppConfig_init int_of_str env APP_NAME APP_VERSION APP_DESCRIPTION
       (Some (OpenAIConfig_from_env env))
       (Some (AnthropicConfig_from_env env))
       (Some (ModelConfig_from_env env))
       (Some (DatabaseConfig_from_env env))
       (Some (AgentConfig_from_env env))
       (Some (ServerConfig_from_env int_of_str env))"

text \<open>
  The module-level singleton \<open>_config\<close> is the state; \<open>get_config\<close> returns what it
  yields together with the new state. A failed load leaves the state at \<open>None\<close>.
\<close>

definition get_config ::
  "(string \<Rightarrow> int option) \<Rightarrow> environ \<Rightarrow> AppConfig option \<Rightarrow> (exn + AppConfig) \<times> AppConfig option" where
  "get_config int_of_str env st =
     (case st of
        Some c \<Rightarrow> (Inr c, st)
      | None \<Rightarrow>
          (case AppConfig_from_env int_of_str env of
             Inl e \<Rightarrow> (Inl e, None)
           | Inr c \<Rightarrow> (Inr c, Some c)))"

definition reset_config :: "AppConfig option \<Rightarrow> AppConfig option" where
  "reset_config st = None"

text \<open>
  Every function of the backend that needs the configuration starts with
  \<open>config = get_config()\<close>. Below, such a function takes \<open>config\<close> as its first
  argument, and \<open>with_config\<close> is the call of that function in a process whose
  singleton state is \<open>st\<close>: the load runs first, and its error leaves before the body.
\<close>

definition with_config ::
  "(string \<Rightarrow> int option) \<Rightarrow> environ \<Rightarrow> AppConfig option \<Rightarrow> (AppConfig \<Rightarrow> exn + 'a) \<Rightarrow>
   (exn + 'a) \<times> AppConfig option" where
  "with_config int_of_str env st body =
     (case get_config int_of_str env st of
        (Inl e, st') \<Rightarrow> (Inl e, st')
      | (Inr config, st') \<Rightarrow> (body config, st'))"

text \<open>
  The values of the nested dictionary that \<open>to_dict\<close> returns, a dictionary being the
  list of its items in insertion order. \<open>mask_key\<close> is the expression
  \<open>"***" + (api_key[-4:] if api_key else "NOT SET")\<close> that \<open>to_dict\<close> writes out for
  each of the two keys.
\<close>

datatype pyval = PyStr string | PyInt int | PyBool bool | PyDict "(string \<times> pyval) list"

definition mask_key :: "string \<Rightarrow> string" where
  "mask_key api_key = ''***'' @ (if api_key \<noteq> [] then last4 api_key else ''NOT SET'')"

definition to_dict :: "AppConfig \<Rightarrow> pyval" where
  "to_dict self = PyDict [
     (''app'', PyDict [
        (''name'', PyStr (name self)),
        (''version'', PyStr (version self)),
        (''description'', PyStr (description self))]),
     (''model'', PyDict [
        (''provider'', PyStr (provider (model self))),
        (''model_id'', PyStr (model_id (model self)))]),
     (''openai'', PyDict [(''api_key'', PyStr (mask_key (openai_api_key (openai self))))]),
     (''anthropic'', PyDict [(''api_key'', PyStr (mask_key (anthropic_api_key (anthropic self))))]),
     (''database'', PyDict [
        (''db_file'', PyStr (db_file (database self))),
        (''vector_db_file'', PyStr (vector_db_file (database self)))]),
     (''agent'', PyDict [
        (''model_id'', PyStr (agent_model_id (agent self))),
        (''mcp_url'', PyStr (mcp_url (agent self)))]),
     (''server'', PyDict [
        (''host'', PyStr (host (server self))),
        (''port'', PyInt (port (server self))),
        (''reload'', PyBool (reload (server self))),
        (''log_level'', PyStr (log_level (server self)))])]"

section \<open>\<^verbatim>\<open>config/model_provider.py\<close>\<close>

text \<open>The two model clients, each built from a model id and an API key.\<close>

datatype model_client = OpenAIChat string string | Claude string string

definition unsupported_provider_message :: "string \<Rightarrow> string" where
  "unsupported_provider_message final_provider =
     cross_mark @ '' Unsupported provider: '' @ final_provider @ newline @
     ''   Supported: '' @ quoted ''openai'' @ '', '' @ quoted ''anthropic''"

definition get_model :: "AppConfig \<Rightarrow> string option \<Rightarrow> string option \<Rightarrow> exn + model_client" where
  "get_model config provider_arg model_id_arg =
     (let final_provider = str_or provider_arg (provider (model config));
          final_model_id = str_or model_id_arg (model_id (model config))
      in if final_provider = ''openai''
         then Inr (OpenAIChat final_model_id (openai_api_key (openai config)))
         else if final_provider = ''anthropic''
         then Inr (Claude final_model_id (anthropic_api_key (anthropic config)))
         else Inl (ValueError (unsupported_provider_message final_provider)))"

definition get_provider_name :: "AppConfig \<Rightarrow> string option \<Rightarrow> string" where
  "get_provider_name config provider_arg =
     (let final_provider = str_or provider_arg (provider (model config))
      in case [''openai'' \<mapsto> ''OpenAI ChatGPT'', ''anthropic'' \<mapsto> ''Anthropic Claude'']
              final_provider of
           Some n \<Rightarrow> n
         | None \<Rightarrow> ''Unknown Provider'')"

section \<open>The library objects the agents are built from\<close>

text \<open>
  The agno classes are outside the repository; an object is the record of the arguments
  its constructor was called with. An argument the call site leaves out is \<open>None\<close>.
  The constructors are taken to return, except those of the knowledge base, which
  \<open>create_assist_agent\<close> guards with \<open>try\<close>.
\<close>

datatype SqliteDb = SqliteDb (sqlite_db_file: string) (session_table: "string option")

datatype tool = MCPTools (transport: string) (url: string)

datatype OpenAIEmbedder = OpenAIEmbedder (embedder_id: string)

datatype SearchType = vector | keyword | hybrid

datatype LanceDb =
  LanceDb (uri: string) (table_name: string) (search_type: SearchType) (embedder: OpenAIEmbedder)

datatype Knowledge = Knowledge (knowledge_vector_db: LanceDb)

text \<open>
  \<open>Agent\<close>: the five arguments every call site passes, then the keyword arguments that
  only some call sites pass, then the attributes that \<open>BaseAgentBuilder.build\<close> sets on the
  object after its construction.
\<close>

record Agent =
  agent_name :: string
  agent_model :: model_client
  agent_db :: SqliteDb
  agent_description :: string
  agent_instructions :: "string list"
  agent_id :: "string option"
  agent_tools :: "tool list option"
  agent_knowledge :: "Knowledge option"
  add_history_to_context :: "bool option"
  num_history_runs :: "int option"
  add_datetime_to_context :: "bool option"
  markdown :: "bool option"
  add_session_state_to_context :: "bool option"
  add_dependencies_to_context :: "bool option"
  add_memories_to_context :: "bool option"
  attr_vector_db :: "LanceDb option"
  attr_knowledge_base :: "Knowledge option"
  attr_embeddings :: "OpenAIEmbedder option"
  attr_users :: "string list option"
  attr_memory_config :: "(string \<times> string) list option"

definition Agent_call ::
  "string \<Rightarrow> model_client \<Rightarrow> SqliteDb \<Rightarrow> string \<Rightarrow> string list \<Rightarrow> Agent" where
  "Agent_call nm mdl db descr instrs = \<lparr>
     agent_name = nm, agent_model = mdl, agent_db = db,
     agent_description = descr, agent_instructions = instrs,
     agent_id = None, agent_tools = None, agent_knowledge = None,
     add_history_to_context = None, num_history_runs = None,
     add_datetime_to_context = None, markdown = None,
     add_session_state_to_context = None, add_dependencies_to_context = None,
     add_memories_to_context = None,
     attr_vector_db = None, attr_knowledge_base = None, attr_embeddings = None,
     attr_users = None, attr_memory_config = None \<rparr>"

section \<open>\<^verbatim>\<open>agents/base_agent.py\<close>\<close>

text \<open>
  The keyword arguments of \<open>BaseAgentBuilder.build\<close>: four required ones, and the optional
  ones, where \<open>None\<close> is the Python \<open>None\<close> (for the three flags, whose default is
  \<open>True\<close>, \<open>None\<close> is an argument left out).
\<close>

record build_required =
  req_name :: string
  req_description :: string
  req_instructions :: "string list"
  req_db_table :: string

record build_optional =
  opt_model :: "model_client option"
  opt_db :: "SqliteDb option"
  opt_tools :: "tool list option"
  opt_users :: "string list option"
  opt_vector_db :: "LanceDb option"
  opt_knowledge_base :: "Knowledge option"
  opt_embeddings :: "OpenAIEmbedder option"
  opt_add_session_state_to_context :: "bool option"
  opt_add_dependencies_to_context :: "bool option"
  opt_add_memories_to_context :: "bool option"
  opt_memory_config :: "(string \<times> string) list option"

definition flag_or_True :: "bool option \<Rightarrow> bool" where
  "flag_or_True f = (case f of None \<Rightarrow> True | Some b \<Rightarrow> b)"

definition build :: "AppConfig \<Rightarrow> build_required \<Rightarrow> build_optional \<Rightarrow> exn + Agent" where
  "build config req opt =
     (case (case opt_model opt of Some m \<Rightarrow> Inr m | None \<Rightarrow> get_model config None None) of
        Inl e \<Rightarrow> Inl e
      | Inr final_model \<Rightarrow>
          (let final_db = (case opt_db opt of
                             Some d \<Rightarrow> d
                           | None \<Rightarrow> SqliteDb (db_file (database config)) (Some (req_db_table req)));
               final_tools = (case opt_tools opt of Some ts \<Rightarrow> ts | None \<Rightarrow> []);
               agent0 = (Agent_call (req_name req) final_model final_db
                           (req_description req) (req_instructions req)) \<lparr>
                   agent_tools := Some final_tools,
                   add_session_state_to_context :=
                     Some (flag_or_True (opt_add_session_state_to_context opt)),
                   add_dependencies_to_context :=
                     Some (flag_or_True (opt_add_dependencies_to_context opt)),
                   add_memories_to_context :=
                     Some (flag_or_True (opt_add_memories_to_context opt)) \<rparr>;
               agent1 = (case opt_vector_db opt of
                           Some v \<Rightarrow> agent0 \<lparr> attr_vector_db := Some v \<rparr> | None \<Rightarrow> agent0);
               agent2 = (case opt_knowledge_base opt of
                           Some k \<Rightarrow> agent1 \<lparr> attr_knowledge_base := Some k \<rparr> | None \<Rightarrow> agent1);
               agent3 = (case opt_embeddings opt of
                           Some e \<Rightarrow> agent2 \<lparr> attr_embeddings := Some e \<rparr> | None \<Rightarrow> agent2);
               agent4 = (case opt_users opt of
                           Some u \<Rightarrow> agent3 \<lparr> attr_users := Some u \<rparr> | None \<Rightarrow> agent3);
               agent5 = (case opt_memory_config opt of
                           Some c \<Rightarrow> agent4 \<lparr> attr_memory_config := Some c \<rparr> | None \<Rightarrow> agent4)
           in Inr agent5))"

section \<open>\<^verbatim>\<open>agents/conversation_agent.py\<close>, \<^verbatim>\<open>research_agent.py\<close>, \<^verbatim>\<open>assist_agent.py\<close>\<close>

definition create_conversation_agent :: "AppConfig \<Rightarrow> exn + Agent" where
  "create_conversation_agent config =
     (let db = SqliteDb (db_file (database config)) None
      in case get_model config None None of
           Inl e \<Rightarrow> Inl e
         | Inr mdl \<Rightarrow>
             Inr ((Agent_call (const_name CONVERSATION_AGENT_CONFIG) mdl db
                     (const_description CONVERSATION_AGENT_CONFIG)
                     (const_instructions CONVERSATION_AGENT_CONFIG)) \<lparr>
                   agent_id := Some (const_db_table CONVERSATION_AGENT_CONFIG),
                   add_history_to_context := Some True,
                   num_history_runs := Some 3,
                   markdown := Some True \<rparr>))"

definition create_research_agent :: "AppConfig \<Rightarrow> exn + Agent" where
  "create_research_agent config =
     (let db = SqliteDb (db_file (database config)) None;
          mcp_tools = MCPTools ''streamable-http'' (mcp_url (agent config))
      in case get_model config None None of
           Inl e \<Rightarrow> Inl e
         | Inr mdl \<Rightarrow>
             Inr ((Agent_call (const_name RESEARCH_AGENT_CONFIG) mdl db
                     (const_description RESEARCH_AGENT_CONFIG)
                     (const_instructions RESEARCH_AGENT_CONFIG)) \<lparr>
                   agent_id := Some (const_db_table RESEARCH_AGENT_CONFIG),
                   agent_tools := Some [mcp_tools],
                   add_history_to_context := Some True,
                   num_history_runs := Some 3,
                   markdown := Some True \<rparr>))"

text \<open>
  \<open>create_assist_agent\<close> builds the knowledge base inside \<open>try\<close>. Whether the library
  constructors raise is decided outside the repository, so the exception they raise, if
  any, is the argument \<open>knowledge_failure\<close>.
\<close>

definition assist_knowledge :: Knowledge where
  "assist_knowledge =
     Knowledge (LanceDb ''tmp/lancedb'' ''agno_assist_knowledge'' hybrid
                  (OpenAIEmbedder ''text-embedding-3-small''))"

definition create_assist_agent :: "AppConfig \<Rightarrow> exn option \<Rightarrow> exn + Agent" where
  "create_assist_agent config knowledge_failure =
     (let db = SqliteDb (db_file (database config)) None
      in case (case knowledge_failure of
                 None \<Rightarrow> Inr (Some assist_knowledge)
               | Some e \<Rightarrow> if is_Exception e then Inr None else Inl e) of
           Inl e \<Rightarrow> Inl e
         | Inr knowledge \<Rightarrow>
             (case get_model config None None of
                Inl e \<Rightarrow> Inl e
              | Inr mdl \<Rightarrow>
                  Inr ((Agent_call (const_name ASSIST_AGENT_CONFIG) mdl db
                          (const_description ASSIST_AGENT_CONFIG)
                          (const_instructions ASSIST_AGENT_CONFIG)) \<lparr>
                        agent_id := Some (const_db_table ASSIST_AGENT_CONFIG),
                        agent_knowledge := knowledge,
                        add_history_to_context := Some True,
                        num_history_runs := Some 3,
                        add_datetime_to_context := Some True,
                        markdown := Some True \<rparr>)))"

section \<open>core/runtime.py\<close>

datatype CORSMiddleware =
  CORSMiddleware (allow_origins: "string list") (allow_credentials: bool)
    (allow_methods: "string list") (allow_headers: "string list")

record AgentOS =
  os_name :: string
  os_description :: string
  os_version :: string
  agents :: "Agent list"
  middleware :: "CORSMiddleware list"

definition create_runtime :: "AppConfig \<Rightarrow> exn option \<Rightarrow> exn + AgentOS" where
  "create_runtime config knowledge_failure =
     (case create_conversation_agent config of
        Inl e \<Rightarrow> Inl e
      | Inr conversation_agent \<Rightarrow>
          (case create_research_agent config of
             Inl e \<Rightarrow> Inl e
           | Inr research_agent \<Rightarrow>
               (case create_assist_agent config knowledge_failure of
                  Inl e \<Rightarrow> Inl e
                | Inr assist_agent \<Rightarrow>
                    Inr \<lparr> os_name = APP_NAME,
                          os_description = APP_DESCRIPTION,
                          os_version = APP_VERSION,
                          agents = [conversation_agent, research_agent, assist_agent],
                          middleware =
                            [CORSMiddleware [''http://localhost:3000''] True [''*''] [''*'']] \<rparr>)))"

text \<open>
  A call of \<open>get_model\<close>, and of \<open>create_runtime\<close>, in a process whose singleton state is
  \<open>st\<close>.
\<close>

definition call_get_model ::
  "(string \<Rightarrow> int option) \<Rightarrow> environ \<Rightarrow> AppConfig option \<Rightarrow> string option \<Rightarrow> string option \<Rightarrow>
   (exn + model_client) \<times> AppConfig option" where
  "call_get_model int_of_str env st provider_arg model_id_arg =
     with_config int_of_str env st (\<lambda>config. get_model config provider_arg model_id_arg)"

definition call_create_runtime ::
  "(string \<Rightarrow> int option) \<Rightarrow> environ \<Rightarrow> AppConfig option \<Rightarrow> exn option \<Rightarrow>
   (exn + AgentOS) \<times> AppConfig option" where
  "call_create_runtime int_of_str env st knowledge_failure =
     with_config int_of_str env st (\<lambda>config. create_runtime config knowledge_failure)"

section \<open>Concrete inputs\<close>

text \<open>
  An environment that selects OpenAI and sets only the Anthropic key, the configuration
  it loads, a configuration with an OpenAI key, one that selects Anthropic, and the
  arguments of the first example in the docstring of \<open>build\<close>.
\<close>

definition example_int_of_str :: "string \<Rightarrow> int option" where
  "example_int_of_str s = (if s = ''8000'' then Some 8000 else None)"

definition anthropic_only_env :: environ where
  "anthropic_only_env =
     [''MODEL_PROVIDER'' \<mapsto> ''openai'', ''ANTHROPIC_API_KEY'' \<mapsto> ''sk-ant-test-5678'']"

definition anthropic_only_config :: AppConfig where
  "anthropic_only_config = \<lparr>
     name = ''Agno Smart Assistant'', version = ''1.0.0'',
     description = ''Multi-agent AI assistant powered by Agno'',
     openai = \<lparr> openai_api_key = [] \<rparr>,
     anthropic = \<lparr> anthropic_api_key = ''sk-ant-test-5678'' \<rparr>,
     model = \<lparr> provider = ''openai'', model_id = ''gpt-4'' \<rparr>,
     database = \<lparr> db_file = ''agno.db'', vector_db_file = ''vector.db'' \<rparr>,
     agent = \<lparr> agent_model_id = ''gpt-4'', mcp_url = ''https://docs.agno.com/mcp'' \<rparr>,
     server = \<lparr> host = ''0.0.0.0'', port = 8000, reload = True, log_level = ''info'' \<rparr> \<rparr>"

definition example_config :: AppConfig where
  "example_config = anthropic_only_config \<lparr>
     openai := \<lparr> openai_api_key = ''sk-test-1234'' \<rparr>,
     anthropic := \<lparr> anthropic_api_key = [] \<rparr> \<rparr>"

definition anthropic_config :: AppConfig where
  "anthropic_config = anthropic_only_config \<lparr>
     model := \<lparr> provider = ''anthropic'', model_id = ''claude-3-5-sonnet-20241022'' \<rparr> \<rparr>"

definition example_required :: build_required where
  "example_required = \<lparr>
     req_name = ''Helper'', req_description = ''Helpful assistant'',
     req_instructions = [''You are helpful''], req_db_table = ''helper_sessions'' \<rparr>"

definition no_overrides :: build_optional where
  "no_overrides = \<lparr>
     opt_model = None, opt_db = None, opt_tools = None, opt_users = None,
     opt_vector_db = None, opt_knowledge_base = None, opt_embeddings = None,
     opt_add_session_state_to_context = None, opt_add_dependencies_to_context = None,
     opt_add_memories_to_context = None, opt_memory_config = None \<rparr>"

section \<open>Properties\<close>

subsection \<open>Model resolution and the builder\<close>

lemmas example_defs =
  example_config_def anthropic_only_config_def example_required_def no_overrides_def

lemma str_or_None: "str_or None b = b"
  by (simp add: str_or_def)

lemma str_or_empty: "str_or (Some []) b = b"
  by (simp add: str_or_def)

lemma get_model_succeeds_iff:
  "(\<exists>m. get_model config pa ma = Inr m) \<longleftrightarrow>
   str_or pa (provider (model config)) \<in> {''openai'', ''anthropic''}"
  by (auto simp add: get_model_def Let_def)

lemma get_model_default_succeeds_iff:
  "(\<exists>m. get_model config None None = Inr m) \<longleftrightarrow>
   provider (model config) \<in> {''openai'', ''anthropic''}"
  using get_model_succeeds_iff [of config None None] by (simp add: str_or_None)

lemma get_model_default_fails:
  "provider (model config) \<notin> {''openai'', ''anthropic''} \<Longrightarrow>
   get_model config None None =
     Inl (ValueError (unsupported_provider_message (provider (model config))))"
  by (simp add: get_model_def Let_def str_or_None)

text \<open>
  Counterexample to C3 as stated: the empty string is a provider value outside
  the supported set, yet \<open>get_model\<close> called with it does not fail; it falls back to
  the configured provider and returns a client.
\<close>

theorem get_model_empty_provider_counterexample:
  "[] \<notin> {''openai'', ''anthropic''} \<and>
   get_model example_config (Some []) None = Inr (OpenAIChat ''gpt-4'' ''sk-test-1234'')"
  by (simp add: get_model_def str_or_def example_defs)

text \<open>
  C3, amended. The provider that decides is the resolved one: the argument when it is a
  non-empty string, the configured provider otherwise. When the resolved provider is
  neither \<open>openai\<close> nor \<open>anthropic\<close>, \<open>get_model\<close> raises a \<open>ValueError\<close> whose message
  holds that value and the supported set; when it is one of the two, \<open>get_model\<close>
  returns a model client.
\<close>

theorem get_model_provider_resolution:
  "(str_or provider_arg (provider (model config)) \<notin> {''openai'', ''anthropic''} \<longrightarrow>
      get_model config provider_arg model_id_arg =
        Inl (ValueError (cross_mark @ '' Unsupported provider: '' @
               str_or provider_arg (provider (model config)) @ newline @
               ''   Supported: '' @ quoted ''openai'' @ '', '' @ quoted ''anthropic''))) \<and>
   (str_or provider_arg (provider (model config)) \<in> {''openai'', ''anthropic''} \<longrightarrow>
      (\<exists>client. get_model config provider_arg model_id_arg = Inr client))"
  by (simp add: get_model_def Let_def unsupported_provider_message_def)

text \<open>
  Both cases at concrete inputs: the provider \<open>azure\<close> is refused with the message
  naming it, the provider \<open>anthropic\<close> yields a client.
\<close>

theorem get_model_provider_resolution_witness:
  "get_model example_config (Some ''azure'') None =
     Inl (ValueError (cross_mark @ '' Unsupported provider: azure'' @ newline @
            ''   Supported: '' @ quoted ''openai'' @ '', '' @ quoted ''anthropic'')) \<and>
   (\<exists>client. get_model example_config (Some ''anthropic'') None = Inr client)"
  using get_model_provider_resolution [of "Some ''azure''" example_config None]
        get_model_provider_resolution [of "Some ''anthropic''" example_config None]
  by (simp add: str_or_def)

text \<open>
  C9. In \<open>get_model\<close> an empty string given for the provider or for the model id is
  treated as \<open>None\<close> is and replaced by the configured value: the call behaves as the
  one that names \<open>config.model.provider\<close> or \<open>config.model.model_id\<close>, and with both
  empty the client is the configured provider's, with the configured model id and that
  provider's key. In \<open>build\<close> an empty value is kept: an empty tool list, an empty
  user list and an empty memory configuration reach the agent as given, whereas
  \<open>None\<close> for the users or the memory configuration leaves the attribute unset.
\<close>

theorem empty_override_get_model_versus_build:
  "get_model config (Some []) model_id_arg = get_model config None model_id_arg \<and>
   get_model config provider_arg (Some []) = get_model config provider_arg None \<and>
   get_model config (Some []) model_id_arg =
     get_model config (Some (provider (model config))) model_id_arg \<and>
   get_model config provider_arg (Some []) =
     get_model config provider_arg (Some (model_id (model config))) \<and>
   get_model config (Some []) (Some []) =
     (if provider (model config) = ''openai''
      then Inr (OpenAIChat (model_id (model config)) (openai_api_key (openai config)))
      else if provider (model config) = ''anthropic''
      then Inr (Claude (model_id (model config)) (anthropic_api_key (anthropic config)))
      else Inl (ValueError (cross_mark @ '' Unsupported provider: '' @
                  provider (model config) @ newline @
                  ''   Supported: '' @ quoted ''openai'' @ '', '' @ quoted ''anthropic''))) \<and>
   (\<exists>a. build config req (opt \<lparr> opt_model := Some m, opt_tools := Some [], opt_users := Some [],
                                  opt_memory_config := Some [] \<rparr>) = Inr a \<and>
        agent_model a = m \<and> agent_tools a = Some [] \<and> attr_users a = Some [] \<and>
        attr_memory_config a = Some []) \<and>
   (\<exists>a. build config req (opt \<lparr> opt_model := Some m, opt_tools := None, opt_users := None,
                                  opt_memory_config := None \<rparr>) = Inr a \<and>
        agent_model a = m \<and> agent_tools a = Some [] \<and> attr_users a = None \<and>
        attr_memory_config a = None)"
proof -
  have g1: "get_model config (Some []) model_id_arg = get_model config None model_id_arg"
    by (simp add: get_model_def str_or_def)
  have g2: "get_model config provider_arg (Some []) = get_model config provider_arg None"
    by (simp add: get_model_def str_or_def)
  have g3: "get_model config (Some []) model_id_arg =
      get_model config (Some (provider (model config))) model_id_arg"
    by (simp add: get_model_def str_or_def)
  have g4: "get_model config provider_arg (Some []) =
      get_model config provider_arg (Some (model_id (model config)))"
    by (simp add: get_model_def str_or_def)
  have g5: "get_model config (Some []) (Some []) =
     (if provider (model config) = ''openai''
      then Inr (OpenAIChat (model_id (model config)) (openai_api_key (openai config)))
      else if provider (model config) = ''anthropic''
      then Inr (Claude (model_id (model config)) (anthropic_api_key (anthropic config)))
      else Inl (ValueError (cross_mark @ '' Unsupported provider: '' @
                  provider (model config) @ newline @
                  ''   Supported: '' @ quoted ''openai'' @ '', '' @ quoted ''anthropic'')))"
    by (simp add: get_model_def str_or_def unsupported_provider_message_def)
  have b1: "\<exists>a. build config req (opt \<lparr> opt_model := Some m, opt_tools := Some [],
                  opt_users := Some [], opt_memory_config := Some [] \<rparr>) = Inr a \<and>
        agent_model a = m \<and> agent_tools a = Some [] \<and> attr_users a = Some [] \<and>
        attr_memory_config a = Some []"
    by (simp add: build_def Let_def Agent_call_def split: option.split)
  have b2: "\<exists>a. build config req (opt \<lparr> opt_model := Some m, opt_tools := None,
                  opt_users := None, opt_memory_config := None \<rparr>) = Inr a \<and>
        agent_model a = m \<and> agent_tools a = Some [] \<and> attr_users a = None \<and>
        attr_memory_config a = None"
    by (simp add: build_def Let_def Agent_call_def split: option.split)
  from g1 g2 g3 g4 g5 b1 b2 show ?thesis by (intro conjI)
qed

text \<open>
  Under a configuration that selects Anthropic, both arguments empty: the client is
  Claude with the configured model id and the Anthropic key, not a fixed default.
\<close>

theorem empty_override_get_model_versus_build_witness:
  "get_model anthropic_config (Some []) (Some []) =
     Inr (Claude ''claude-3-5-sonnet-20241022'' ''sk-ant-test-5678'') \<and>
   get_model anthropic_config (Some []) (Some ''claude-3-opus'') =
     Inr (Claude ''claude-3-opus'' ''sk-ant-test-5678'') \<and>
   get_model anthropic_config (Some ''openai'') (Some []) =
     Inr (OpenAIChat ''claude-3-5-sonnet-20241022'' [])"
proof -
  note both = empty_override_get_model_versus_build
    [where config = anthropic_config and provider_arg = "Some ''openai''"
       and model_id_arg = "Some ''claude-3-opus''" and req = example_required
       and opt = no_overrides and m = "Claude [] []"]
  have c: "provider (model anthropic_config) = ''anthropic''"
    "model_id (model anthropic_config) = ''claude-3-5-sonnet-20241022''"
    "anthropic_api_key (anthropic anthropic_config) = ''sk-ant-test-5678''"
    "openai_api_key (openai anthropic_config) = []"
    by (simp_all add: anthropic_config_def anthropic_only_config_def)
  note rest = both [THEN conjunct2, THEN conjunct2]
  note g3 = rest [THEN conjunct1]
  note g4 = rest [THEN conjunct2, THEN conjunct1]
  note g5 = rest [THEN conjunct2, THEN conjunct2, THEN conjunct1]
  from g5 have 1: "get_model anthropic_config (Some []) (Some []) =
      Inr (Claude ''claude-3-5-sonnet-20241022'' ''sk-ant-test-5678'')"
    unfolding c by simp
  have 2: "get_model anthropic_config (Some []) (Some ''claude-3-opus'') =
      Inr (Claude ''claude-3-opus'' ''sk-ant-test-5678'')"
    unfolding g3 by (simp add: get_model_def str_or_def c)
  have 3: "get_model anthropic_config (Some ''openai'') (Some []) =
      Inr (OpenAIChat ''claude-3-5-sonnet-20241022'' [])"
    unfolding g4 by (simp add: get_model_def str_or_def c)
  from 1 2 3 show ?thesis by (intro conjI)
qed

lemma build_succeeds_iff:
  "(\<exists>a. build config req opt = Inr a) \<longleftrightarrow>
   (opt_model opt \<noteq> None \<or> provider (model config) \<in> {''openai'', ''anthropic''})"
proof (cases "opt_model opt")
  case None
  then have "(\<exists>a. build config req opt = Inr a) \<longleftrightarrow> (\<exists>m. get_model config None None = Inr m)"
    by (auto simp add: build_def Let_def split: sum.splits)
  with None show ?thesis
    by (simp add: get_model_default_succeeds_iff)
next
  case (Some m)
  then show ?thesis
    by (simp add: build_def Let_def)
qed


text \<open>
  The five conditional attribute assignments of \<open>build\<close>, each as one update, and
  \<open>build\<close> with the resulting object written out field by field.
\<close>

lemma attach_option:
  "(case x of Some v \<Rightarrow> a \<lparr> attr_vector_db := Some v \<rparr> | None \<Rightarrow> a) =
     a \<lparr> attr_vector_db := (case x of Some v \<Rightarrow> Some v | None \<Rightarrow> attr_vector_db a) \<rparr>"
  "(case y of Some v \<Rightarrow> a \<lparr> attr_knowledge_base := Some v \<rparr> | None \<Rightarrow> a) =
     a \<lparr> attr_knowledge_base := (case y of Some v \<Rightarrow> Some v | None \<Rightarrow> attr_knowledge_base a) \<rparr>"
  "(case z of Some v \<Rightarrow> a \<lparr> attr_embeddings := Some v \<rparr> | None \<Rightarrow> a) =
     a \<lparr> attr_embeddings := (case z of Some v \<Rightarrow> Some v | None \<Rightarrow> attr_embeddings a) \<rparr>"
  "(case u of Some v \<Rightarrow> a \<lparr> attr_users := Some v \<rparr> | None \<Rightarrow> a) =
     a \<lparr> attr_users := (case u of Some v \<Rightarrow> Some v | None \<Rightarrow> attr_users a) \<rparr>"
  "(case w of Some v \<Rightarrow> a \<lparr> attr_memory_config := Some v \<rparr> | None \<Rightarrow> a) =
     a \<lparr> attr_memory_config := (case w of Some v \<Rightarrow> Some v | None \<Rightarrow> attr_memory_config a) \<rparr>"
  by (simp_all split: option.split)

lemma option_case_id: "(case x of Some v \<Rightarrow> Some v | None \<Rightarrow> None) = x"
  by (simp split: option.split)

lemma build_with_model:
  "build config req opt =
     (case (case opt_model opt of Some m \<Rightarrow> Inr m | None \<Rightarrow> get_model config None None) of
        Inl e \<Rightarrow> Inl e
      | Inr final_model \<Rightarrow> Inr \<lparr>
          agent_name = req_name req, agent_model = final_model,
          agent_db = (case opt_db opt of
                        Some d \<Rightarrow> d
                      | None \<Rightarrow> SqliteDb (db_file (database config)) (Some (req_db_table req))),
          agent_description = req_description req,
          agent_instructions = req_instructions req,
          agent_id = None,
          agent_tools = Some (case opt_tools opt of Some ts \<Rightarrow> ts | None \<Rightarrow> []),
          agent_knowledge = None,
          add_history_to_context = None, num_history_runs = None,
          add_datetime_to_context = None, markdown = None,
          add_session_state_to_context =
            Some (flag_or_True (opt_add_session_state_to_context opt)),
          add_dependencies_to_context =
            Some (flag_or_True (opt_add_dependencies_to_context opt)),
          add_memories_to_context =
            Some (flag_or_True (opt_add_memories_to_context opt)),
          attr_vector_db = opt_vector_db opt,
          attr_knowledge_base = opt_knowledge_base opt,
          attr_embeddings = opt_embeddings opt,
          attr_users = opt_users opt,
          attr_memory_config = opt_memory_config opt \<rparr>)"
  unfolding build_def Let_def attach_option Agent_call_def
  by (simp add: option_case_id split: sum.split cong: option.case_cong)



lemma build_Inr_fields:
  assumes "build config req opt = Inr a"
  shows "(case opt_model opt of Some m \<Rightarrow> Inr m | None \<Rightarrow> get_model config None None) =
           Inr (agent_model a)"
    and "agent_name a = req_name req"
    and "agent_description a = req_description req"
    and "agent_instructions a = req_instructions req"
    and "agent_db a =
           (case opt_db opt of
              Some d \<Rightarrow> d
            | None \<Rightarrow> SqliteDb (db_file (database config)) (Some (req_db_table req)))"
    and "agent_tools a = Some (case opt_tools opt of Some ts \<Rightarrow> ts | None \<Rightarrow> [])"
    and "attr_users a = opt_users opt"
    and "attr_vector_db a = opt_vector_db opt"
    and "attr_knowledge_base a = opt_knowledge_base opt"
    and "attr_embeddings a = opt_embeddings opt"
    and "attr_memory_config a = opt_memory_config opt"
    and "add_session_state_to_context a =
           Some (flag_or_True (opt_add_session_state_to_context opt))"
    and "add_dependencies_to_context a =
           Some (flag_or_True (opt_add_dependencies_to_context opt))"
    and "add_memories_to_context a =
           Some (flag_or_True (opt_add_memories_to_context opt))"
proof -
  let ?fm = "case opt_model opt of Some m \<Rightarrow> Inr m | None \<Rightarrow> get_model config None None"
  from assms obtain m where m: "?fm = Inr m"
    by (cases ?fm) (simp_all add: build_with_model)
  from assms have a: "a = projr (build config req opt)"
    by simp
  show "?fm = Inr (agent_model a)"
    unfolding a build_with_model m by simp
  show "agent_name a = req_name req"
    unfolding a build_with_model m by simp
  show "agent_description a = req_description req"
    unfolding a build_with_model m by simp
  show "agent_instructions a = req_instructions req"
    unfolding a build_with_model m by simp
  show "agent_db a =
          (case opt_db opt of
             Some d \<Rightarrow> d
           | None \<Rightarrow> SqliteDb (db_file (database config)) (Some (req_db_table req)))"
    unfolding a build_with_model m by simp
  show "agent_tools a = Some (case opt_tools opt of Some ts \<Rightarrow> ts | None \<Rightarrow> [])"
    unfolding a build_with_model m by simp
  show "attr_users a = opt_users opt"
    unfolding a build_with_model m by simp
  show "attr_vector_db a = opt_vector_db opt"
    unfolding a build_with_model m by simp
  show "attr_knowledge_base a = opt_knowledge_base opt"
    unfolding a build_with_model m by simp
  show "attr_embeddings a = opt_embeddings opt"
    unfolding a build_with_model m by simp
  show "attr_memory_config a = opt_memory_config opt"
    unfolding a build_with_model m by simp
  show "add_session_state_to_context a =
          Some (flag_or_True (opt_add_session_state_to_context opt))"
    unfolding a build_with_model m by simp
  show "add_dependencies_to_context a =
          Some (flag_or_True (opt_add_dependencies_to_context opt))"
    unfolding a build_with_model m by simp
  show "add_memories_to_context a =
          Some (flag_or_True (opt_add_memories_to_context opt))"
    unfolding a build_with_model m by simp
qed

text \<open>
  C1. \<open>build\<close> returns an agent exactly when a model is supplied or the configured
  provider is a supported one (otherwise the error of \<open>get_model\<close> leaves \<open>build\<close>).
  In the agent it returns, every field whose override is supplied equals the override,
  and every field whose override is \<open>None\<close> has its default: the model from
  \<open>get_model()\<close>, the SQLite store on the configured file with the given table, the
  empty tool list, \<open>True\<close> for the three context flags, and no attribute for the
  users, vector database, knowledge base, embeddings and memory configuration. An
  empty tool list is an override like any other.
\<close>

theorem build_override_or_default:
  "((\<exists>a. build config req opt = Inr a) \<longleftrightarrow>
      (opt_model opt \<noteq> None \<or> provider (model config) \<in> {''openai'', ''anthropic''})) \<and>
   (\<forall>a. build config req opt = Inr a \<longrightarrow>
      agent_name a = req_name req \<and>
      agent_description a = req_description req \<and>
      agent_instructions a = req_instructions req \<and>
      (\<forall>m. opt_model opt = Some m \<longrightarrow> agent_model a = m) \<and>
      (opt_model opt = None \<longrightarrow> get_model config None None = Inr (agent_model a)) \<and>
      (\<forall>d. opt_db opt = Some d \<longrightarrow> agent_db a = d) \<and>
      (opt_db opt = None \<longrightarrow>
         agent_db a = SqliteDb (db_file (database config)) (Some (req_db_table req))) \<and>
      (\<forall>ts. opt_tools opt = Some ts \<longrightarrow> agent_tools a = Some ts) \<and>
      (opt_tools opt = None \<longrightarrow> agent_tools a = Some []) \<and>
      attr_users a = opt_users opt \<and>
      attr_vector_db a = opt_vector_db opt \<and>
      attr_knowledge_base a = opt_knowledge_base opt \<and>
      attr_embeddings a = opt_embeddings opt \<and>
      attr_memory_config a = opt_memory_config opt \<and>
      add_session_state_to_context a =
        Some (case opt_add_session_state_to_context opt of Some b \<Rightarrow> b | None \<Rightarrow> True) \<and>
      add_dependencies_to_context a =
        Some (case opt_add_dependencies_to_context opt of Some b \<Rightarrow> b | None \<Rightarrow> True) \<and>
      add_memories_to_context a =
        Some (case opt_add_memories_to_context opt of Some b \<Rightarrow> b | None \<Rightarrow> True))"
proof (rule conjI)
  show "(\<exists>a. build config req opt = Inr a) \<longleftrightarrow>
        (opt_model opt \<noteq> None \<or> provider (model config) \<in> {''openai'', ''anthropic''})"
    by (rule build_succeeds_iff)
next
  show "\<forall>a. build config req opt = Inr a \<longrightarrow>
      agent_name a = req_name req \<and>
      agent_description a = req_description req \<and>
      agent_instructions a = req_instructions req \<and>
      (\<forall>m. opt_model opt = Some m \<longrightarrow> agent_model a = m) \<and>
      (opt_model opt = None \<longrightarrow> get_model config None None = Inr (agent_model a)) \<and>
      (\<forall>d. opt_db opt = Some d \<longrightarrow> agent_db a = d) \<and>
      (opt_db opt = None \<longrightarrow>
         agent_db a = SqliteDb (db_file (database config)) (Some (req_db_table req))) \<and>
      (\<forall>ts. opt_tools opt = Some ts \<longrightarrow> agent_tools a = Some ts) \<and>
      (opt_tools opt = None \<longrightarrow> agent_tools a = Some []) \<and>
      attr_users a = opt_users opt \<and>
      attr_vector_db a = opt_vector_db opt \<and>
      attr_knowledge_base a = opt_knowledge_base opt \<and>
      attr_embeddings a = opt_embeddings opt \<and>
      attr_memory_config a = opt_memory_config opt \<and>
      add_session_state_to_context a =
        Some (case opt_add_session_state_to_context opt of Some b \<Rightarrow> b | None \<Rightarrow> True) \<and>
      add_dependencies_to_context a =
        Some (case opt_add_dependencies_to_context opt of Some b \<Rightarrow> b | None \<Rightarrow> True) \<and>
      add_memories_to_context a =
        Some (case opt_add_memories_to_context opt of Some b \<Rightarrow> b | None \<Rightarrow> True)"
  proof (intro allI impI)
    fix a
    assume b: "build config req opt = Inr a"
    note f = build_Inr_fields [OF b]
    have model_override: "\<forall>m. opt_model opt = Some m \<longrightarrow> agent_model a = m"
      using f(1) by auto
    have model_default: "opt_model opt = None \<longrightarrow> get_model config None None = Inr (agent_model a)"
      using f(1) by auto
    have db_override: "\<forall>d. opt_db opt = Some d \<longrightarrow> agent_db a = d"
      using f(5) by auto
    have db_default: "opt_db opt = None \<longrightarrow>
        agent_db a = SqliteDb (db_file (database config)) (Some (req_db_table req))"
      using f(5) by auto
    have tools_override: "\<forall>ts. opt_tools opt = Some ts \<longrightarrow> agent_tools a = Some ts"
      using f(6) by auto
    have tools_default: "opt_tools opt = None \<longrightarrow> agent_tools a = Some []"
      using f(6) by auto
    have flags:
      "add_session_state_to_context a =
         Some (case opt_add_session_state_to_context opt of Some b \<Rightarrow> b | None \<Rightarrow> True)"
      "add_dependencies_to_context a =
         Some (case opt_add_dependencies_to_context opt of Some b \<Rightarrow> b | None \<Rightarrow> True)"
      "add_memories_to_context a =
         Some (case opt_add_memories_to_context opt of Some b \<Rightarrow> b | None \<Rightarrow> True)"
      using f(12,13,14) by (simp_all add: flag_or_True_def)
    from f(2,3,4) model_override model_default db_override db_default tools_override
      tools_default f(7,8,9,10,11) flags
    show "agent_name a = req_name req \<and>
      agent_description a = req_description req \<and>
      agent_instructions a = req_instructions req \<and>
      (\<forall>m. opt_model opt = Some m \<longrightarrow> agent_model a = m) \<and>
      (opt_model opt = None \<longrightarrow> get_model config None None = Inr (agent_model a)) \<and>
      (\<forall>d. opt_db opt = Some d \<longrightarrow> agent_db a = d) \<and>
      (opt_db opt = None \<longrightarrow>
         agent_db a = SqliteDb (db_file (database config)) (Some (req_db_table req))) \<and>
      (\<forall>ts. opt_tools opt = Some ts \<longrightarrow> agent_tools a = Some ts) \<and>
      (opt_tools opt = None \<longrightarrow> agent_tools a = Some []) \<and>
      attr_users a = opt_users opt \<and>
      attr_vector_db a = opt_vector_db opt \<and>
      attr_knowledge_base a = opt_knowledge_base opt \<and>
      attr_embeddings a = opt_embeddings opt \<and>
      attr_memory_config a = opt_memory_config opt \<and>
      add_session_state_to_context a =
        Some (case opt_add_session_state_to_context opt of Some b \<Rightarrow> b | None \<Rightarrow> True) \<and>
      add_dependencies_to_context a =
        Some (case opt_add_dependencies_to_context opt of Some b \<Rightarrow> b | None \<Rightarrow> True) \<and>
      add_memories_to_context a =
        Some (case opt_add_memories_to_context opt of Some b \<Rightarrow> b | None \<Rightarrow> True)"
      by (intro conjI)
  qed
qed

text \<open>
  The docstring's first example with an explicitly empty tool list and nothing else
  overridden.
\<close>

theorem build_override_or_default_witness:
  "\<exists>a. build example_config example_required (no_overrides \<lparr> opt_tools := Some [] \<rparr>) = Inr a \<and>
       agent_tools a = Some [] \<and>
       agent_model a = OpenAIChat ''gpt-4'' ''sk-test-1234'' \<and>
       agent_db a = SqliteDb ''agno.db'' (Some ''helper_sessions'') \<and>
       attr_users a = None"
proof -
  let ?opt = "no_overrides \<lparr> opt_tools := Some [] \<rparr>"
  note spec = build_override_or_default
    [where config = example_config and req = example_required and opt = ?opt]
  have "provider (model example_config) \<in> {''openai'', ''anthropic''}"
    by (simp add: example_defs)
  with spec obtain a where a: "build example_config example_required ?opt = Inr a"
    by blast
  have o: "opt_model ?opt = None" "opt_db ?opt = None" "opt_tools ?opt = Some []"
       "opt_users ?opt = None"
    by (simp_all add: example_defs)
  from spec a have fields:
    "(opt_tools ?opt = None \<longrightarrow> agent_tools a = Some []) \<and>
     (\<forall>ts. opt_tools ?opt = Some ts \<longrightarrow> agent_tools a = Some ts) \<and>
     (opt_model ?opt = None \<longrightarrow> get_model example_config None None = Inr (agent_model a)) \<and>
     (opt_db ?opt = None \<longrightarrow>
        agent_db a =
          SqliteDb (db_file (database example_config)) (Some (req_db_table example_required))) \<and>
     attr_users a = opt_users ?opt"
    by blast
  have g: "get_model example_config None None = Inr (OpenAIChat ''gpt-4'' ''sk-test-1234'')"
    by (simp add: get_model_def str_or_def example_defs)
  have d: "db_file (database example_config) = ''agno.db''"
    "req_db_table example_required = ''helper_sessions''"
    by (simp_all add: example_defs)
  from fields have "agent_tools a = Some []" "agent_model a = OpenAIChat ''gpt-4'' ''sk-test-1234''"
    "agent_db a = SqliteDb ''agno.db'' (Some ''helper_sessions'')" "attr_users a = None"
    unfolding o g d by simp_all
  with a show ?thesis by (intro exI [of _ a]) simp
qed

text \<open>
  Counterexample to C4 as stated: \<open>build\<close> with the empty store key does not raise; it
  returns an agent whose store is the shared file with the empty table name.
\<close>

theorem build_empty_store_key_counterexample:
  "\<not> isl (build example_config (example_required \<lparr> req_db_table := [] \<rparr>) no_overrides) \<and>
   agent_db (projr (build example_config (example_required \<lparr> req_db_table := [] \<rparr>) no_overrides)) =
     SqliteDb ''agno.db'' (Some [])"
  by (simp add: build_with_model get_model_def str_or_def example_defs)

text \<open>
  C4, amended. \<open>build\<close> validates no store key and keeps no registry of keys: for every
  key, empty or used before, it returns an agent whenever a model is supplied or the
  configured provider is supported, and without a store override that agent's store is
  the configured file with the key as its session table.
\<close>

theorem build_accepts_every_store_key:
  "opt_model opt \<noteq> None \<or> provider (model config) \<in> {''openai'', ''anthropic''} \<Longrightarrow>
   \<exists>a. build config (req \<lparr> req_db_table := key \<rparr>) opt = Inr a \<and>
       (opt_db opt = None \<longrightarrow>
          agent_db a = SqliteDb (db_file (database config)) (Some key))"
proof -
  assume "opt_model opt \<noteq> None \<or> provider (model config) \<in> {''openai'', ''anthropic''}"
  then obtain a where a: "build config (req \<lparr> req_db_table := key \<rparr>) opt = Inr a"
    using build_succeeds_iff [of config "req \<lparr> req_db_table := key \<rparr>" opt] by blast
  from build_Inr_fields(5) [OF a]
  have "opt_db opt = None \<longrightarrow>
      agent_db a = SqliteDb (db_file (database config)) (Some key)"
    by simp
  with a show ?thesis by (intro exI [of _ a] conjI)
qed

text \<open>The empty key under the example configuration.\<close>

theorem build_accepts_every_store_key_witness:
  "\<exists>a. build example_config (example_required \<lparr> req_db_table := [] \<rparr>) no_overrides = Inr a \<and>
       agent_db a = SqliteDb ''agno.db'' (Some [])"
proof -
  have "opt_model no_overrides \<noteq> None \<or>
        provider (model example_config) \<in> {''openai'', ''anthropic''}"
    by (simp add: example_defs)
  from build_accepts_every_store_key
    [where opt = no_overrides and config = example_config and req = example_required
       and key = "[]", OF this]
  show ?thesis by (simp add: example_defs)
qed

subsection \<open>Loading the configuration\<close>

lemmas from_env_defs =
  AppConfig_from_env_def AppConfig_init_def OpenAIConfig_from_env_def
  AnthropicConfig_from_env_def

lemma from_env_fails_iff:
  "isl (AppConfig_from_env int_of_str env) \<longleftrightarrow>
   getenv env ''OPENAI_API_KEY'' [] = [] \<and> getenv env ''ANTHROPIC_API_KEY'' [] = []"
  by (simp add: from_env_defs Let_def)

lemma from_env_Inr_keys:
  "AppConfig_from_env int_of_str env = Inr config \<Longrightarrow>
   openai_api_key (openai config) \<noteq> [] \<or> anthropic_api_key (anthropic config) \<noteq> []"
  by (auto simp add: from_env_defs Let_def split: if_splits)

lemma with_config_load_fails:
  "AppConfig_from_env int_of_str env = Inl e \<Longrightarrow>
   with_config int_of_str env None body = (Inl e, None)"
  by (simp add: with_config_def get_config_def)

lemma with_config_load_succeeds:
  "AppConfig_from_env int_of_str env = Inr config \<Longrightarrow>
   with_config int_of_str env None body = (body config, Some config)"
  by (simp add: with_config_def get_config_def)

lemma with_config_loaded:
  "with_config int_of_str env (Some config) body = (body config, Some config)"
  by (simp add: with_config_def get_config_def)

text \<open>
  Once a load has succeeded, every later \<open>get_config()\<close> returns the same object and
  leaves the state alone, whatever the environment has become: passing \<open>config\<close> to a
  function body stands for the \<open>get_config()\<close> calls inside it.
\<close>

lemma get_config_again:
  "get_config int_of_str env st = (Inr config, st') \<Longrightarrow>
   get_config int_of_str env' st' = (Inr config, st')"
  by (auto simp add: get_config_def split: option.splits sum.splits)

lemma anthropic_only_env_loads:
  "AppConfig_from_env example_int_of_str anthropic_only_env = Inr anthropic_only_config"
  by (simp add: AppConfig_from_env_def AppConfig_init_def anthropic_only_env_def
      anthropic_only_config_def OpenAIConfig_from_env_def AnthropicConfig_from_env_def
      ModelConfig_from_env_def DatabaseConfig_from_env_def AgentConfig_from_env_def
      ServerConfig_from_env_def getenv_def lower_def lower_char_def default_models_def
      example_int_of_str_def APP_NAME_def APP_VERSION_def APP_DESCRIPTION_def
      DEFAULT_DB_FILE_def DEFAULT_VECTOR_DB_FILE_def DEFAULT_MODEL_ID_def DEFAULT_MCP_URL_def
      DEFAULT_HOST_def DEFAULT_LOG_LEVEL_def DEFAULT_PORT_def)

lemma empty_env_fails:
  "AppConfig_from_env example_int_of_str Map.empty =
     Inl (ValueError (no_api_key_message ''openai''))"
  by (simp add: AppConfig_from_env_def AppConfig_init_def OpenAIConfig_from_env_def
      AnthropicConfig_from_env_def ModelConfig_from_env_def getenv_def lower_def lower_char_def
      default_models_def Let_def)

subsection \<open>The three agents and the runtime\<close>

lemma create_conversation_agent_eq:
  "create_conversation_agent config =
     (case get_model config None None of
        Inl e \<Rightarrow> Inl e
      | Inr mdl \<Rightarrow> Inr \<lparr>
          agent_name = ''Agno Smart Assistant'', agent_model = mdl,
          agent_db = SqliteDb (db_file (database config)) None,
          agent_description = ''Main conversational agent with tool access'',
          agent_instructions =
            [''You are a helpful AI assistant powered by Agno.'',
             ''You have access to tools and can perform tasks.'',
             ''Always be concise, clear, and helpful.''],
          agent_id = Some ''agno-smart-assistant'', agent_tools = None,
          agent_knowledge = None,
          add_history_to_context = Some True, num_history_runs = Some 3,
          add_datetime_to_context = None, markdown = Some True,
          add_session_state_to_context = None, add_dependencies_to_context = None,
          add_memories_to_context = None,
          attr_vector_db = None, attr_knowledge_base = None, attr_embeddings = None,
          attr_users = None, attr_memory_config = None \<rparr>)"
  by (simp add: create_conversation_agent_def Agent_call_def CONVERSATION_AGENT_CONFIG_def
      split: sum.split)

lemma create_research_agent_eq:
  "create_research_agent config =
     (case get_model config None None of
        Inl e \<Rightarrow> Inl e
      | Inr mdl \<Rightarrow> Inr \<lparr>
          agent_name = ''Research Agent'', agent_model = mdl,
          agent_db = SqliteDb (db_file (database config)) None,
          agent_description = ''Specialized agent for research and analysis'',
          agent_instructions =
            [''You are a research specialist.'',
             ''Help users find, analyze, and synthesize information.'',
             ''Provide well-structured and detailed responses.''],
          agent_id = Some ''research-agent'',
          agent_tools = Some [MCPTools ''streamable-http'' (mcp_url (agent config))],
          agent_knowledge = None,
          add_history_to_context = Some True, num_history_runs = Some 3,
          add_datetime_to_context = None, markdown = Some True,
          add_session_state_to_context = None, add_dependencies_to_context = None,
          add_memories_to_context = None,
          attr_vector_db = None, attr_knowledge_base = None, attr_embeddings = None,
          attr_users = None, attr_memory_config = None \<rparr>)"
  by (simp add: create_research_agent_def Agent_call_def RESEARCH_AGENT_CONFIG_def
      split: sum.split)


lemma create_assist_agent_caught:
  "is_Exception e \<Longrightarrow>
   create_assist_agent config (Some e) =
     (case get_model config None None of
        Inl x \<Rightarrow> Inl x
      | Inr mdl \<Rightarrow> Inr \<lparr>
          agent_name = ''Agno Assist'', agent_model = mdl,
          agent_db = SqliteDb (db_file (database config)) None,
          agent_description =
            ''Documentation assistant using RAG for Agno framework questions'',
          agent_instructions =
            [''You help answer questions about the Agno framework.'',
             ''Search your knowledge before answering the question.'',
             ''Provide accurate answers grounded in the documentation.'',
             ''If information is not in the documentation, say so clearly.''],
          agent_id = Some ''assist-agent'', agent_tools = None,
          agent_knowledge = None,
          add_history_to_context = Some True, num_history_runs = Some 3,
          add_datetime_to_context = Some True, markdown = Some True,
          add_session_state_to_context = None, add_dependencies_to_context = None,
          add_memories_to_context = None,
          attr_vector_db = None, attr_knowledge_base = None, attr_embeddings = None,
          attr_users = None, attr_memory_config = None \<rparr>)"
  by (simp add: create_assist_agent_def Agent_call_def ASSIST_AGENT_CONFIG_def
      split: sum.split)

lemma create_assist_agent_built:
  "create_assist_agent config None =
     (case get_model config None None of
        Inl x \<Rightarrow> Inl x
      | Inr mdl \<Rightarrow> Inr \<lparr>
          agent_name = ''Agno Assist'', agent_model = mdl,
          agent_db = SqliteDb (db_file (database config)) None,
          agent_description =
            ''Documentation assistant using RAG for Agno framework questions'',
          agent_instructions =
            [''You help answer questions about the Agno framework.'',
             ''Search your knowledge before answering the question.'',
             ''Provide accurate answers grounded in the documentation.'',
             ''If information is not in the documentation, say so clearly.''],
          agent_id = Some ''assist-agent'', agent_tools = None,
          agent_knowledge = Some assist_knowledge,
          add_history_to_context = Some True, num_history_runs = Some 3,
          add_datetime_to_context = Some True, markdown = Some True,
          add_session_state_to_context = None, add_dependencies_to_context = None,
          add_memories_to_context = None,
          attr_vector_db = None, attr_knowledge_base = None, attr_embeddings = None,
          attr_users = None, attr_memory_config = None \<rparr>)"
  by (simp add: create_assist_agent_def Agent_call_def ASSIST_AGENT_CONFIG_def
      split: sum.split)

lemma create_assist_agent_not_caught:
  "\<not> is_Exception e \<Longrightarrow> create_assist_agent config (Some e) = Inl e"
  by (simp add: create_assist_agent_def)

lemma supported_provider_model:
  "provider (model config) \<in> {''openai'', ''anthropic''} \<Longrightarrow>
   \<exists>mdl. get_model config None None = Inr mdl"
  by (auto simp add: get_model_def str_or_def)

lemma create_runtime_Inr:
  assumes "create_runtime config knowledge_failure = Inr rt"
  obtains c r a where
    "create_conversation_agent config = Inr c"
    "create_research_agent config = Inr r"
    "create_assist_agent config knowledge_failure = Inr a"
    "agents rt = [c, r, a]"
  using assms by (auto simp add: create_runtime_def split: sum.splits)

lemma create_runtime_succeeds:
  assumes "create_conversation_agent config = Inr c"
    and "create_research_agent config = Inr r"
    and "create_assist_agent config knowledge_failure = Inr a"
  shows "\<exists>rt. create_runtime config knowledge_failure = Inr rt \<and> agents rt = [c, r, a]"
  using assms by (simp add: create_runtime_def)

lemma conversation_agent_fields:
  assumes "create_conversation_agent config = Inr c"
  shows "agent_id c = Some ''agno-smart-assistant''"
    and "agent_db c = SqliteDb (db_file (database config)) None"
    and "agent_tools c = None"
    and "agent_knowledge c = None"
    and "num_history_runs c = Some 3"
  using assms by (auto simp add: create_conversation_agent_eq split: sum.splits)

lemma research_agent_fields:
  assumes "create_research_agent config = Inr r"
  shows "agent_id r = Some ''research-agent''"
    and "agent_db r = SqliteDb (db_file (database config)) None"
    and "agent_tools r = Some [MCPTools ''streamable-http'' (mcp_url (agent config))]"
    and "agent_knowledge r = None"
  using assms by (auto simp add: create_research_agent_eq split: sum.splits)

lemma assist_agent_fields:
  assumes "create_assist_agent config knowledge_failure = Inr a"
  shows "agent_id a = Some ''assist-agent''"
    and "agent_db a = SqliteDb (db_file (database config)) None"
    and "agent_tools a = None"
  using assms
  by (auto simp add: create_assist_agent_def Agent_call_def ASSIST_AGENT_CONFIG_def
      split: sum.splits option.splits if_splits)

text \<open>
  What every assembled runtime holds: three agents, whose ids are the \<open>db_table\<close>
  entries of the three constant dictionaries, and whose stores are one and the same
  value, the configured database file with no session table named.
\<close>

lemma runtime_agents_ids_and_stores:
  assumes "create_runtime config knowledge_failure = Inr rt"
  shows "length (agents rt) = 3"
    and "map agent_id (agents rt) =
           [Some (const_db_table CONVERSATION_AGENT_CONFIG),
            Some (const_db_table RESEARCH_AGENT_CONFIG),
            Some (const_db_table ASSIST_AGENT_CONFIG)]"
    and "distinct (map agent_id (agents rt))"
    and "map agent_db (agents rt) =
           replicate 3 (SqliteDb (db_file (database config)) None)"
proof -
  from assms obtain c r a where
    c: "create_conversation_agent config = Inr c" and
    r: "create_research_agent config = Inr r" and
    a: "create_assist_agent config knowledge_failure = Inr a" and
    rt: "agents rt = [c, r, a]"
    by (rule create_runtime_Inr)
  have ids: "map agent_id (agents rt) =
      [Some ''agno-smart-assistant'', Some ''research-agent'', Some ''assist-agent'']"
    unfolding rt
    by (simp add: conversation_agent_fields(1) [OF c] research_agent_fields(1) [OF r]
        assist_agent_fields(1) [OF a])
  have keys: "const_db_table CONVERSATION_AGENT_CONFIG = ''agno-smart-assistant''"
    "const_db_table RESEARCH_AGENT_CONFIG = ''research-agent''"
    "const_db_table ASSIST_AGENT_CONFIG = ''assist-agent''"
    by (simp_all add: CONVERSATION_AGENT_CONFIG_def RESEARCH_AGENT_CONFIG_def
        ASSIST_AGENT_CONFIG_def)
  show "length (agents rt) = 3"
    unfolding rt by simp
  show "map agent_id (agents rt) =
      [Some (const_db_table CONVERSATION_AGENT_CONFIG),
       Some (const_db_table RESEARCH_AGENT_CONFIG),
       Some (const_db_table ASSIST_AGENT_CONFIG)]"
    unfolding ids keys by simp
  show "distinct (map agent_id (agents rt))"
    unfolding ids by simp
  show "map agent_db (agents rt) = replicate 3 (SqliteDb (db_file (database config)) None)"
    unfolding rt
    by (simp add: conversation_agent_fields(2) [OF c] research_agent_fields(2) [OF r]
        assist_agent_fields(2) [OF a] numeral_3_eq_3)
qed

text \<open>
  C6 on the example configuration. The runtime is assembled and holds three agents on
  the one database file, but the three \<open>db_table\<close> keys reach the agents only as their
  ids: each factory opens its store without a session table, so the three stores are
  equal and no store carries its agent's key. \<open>build\<close>, given the same key, opens the
  store with the key as its session table.
\<close>

theorem runtime_agents_share_one_store:
  "\<not> isl (create_runtime example_config None) \<and>
   map agent_id (agents (projr (create_runtime example_config None))) =
     [Some ''agno-smart-assistant'', Some ''research-agent'', Some ''assist-agent''] \<and>
   map agent_db (agents (projr (create_runtime example_config None))) =
     [SqliteDb ''agno.db'' None, SqliteDb ''agno.db'' None, SqliteDb ''agno.db'' None] \<and>
   \<not> distinct (map agent_db (agents (projr (create_runtime example_config None)))) \<and>
   agent_db (projr (build example_config
       (example_required \<lparr> req_db_table := ''assist-agent'' \<rparr>) no_overrides)) =
     SqliteDb ''agno.db'' (Some ''assist-agent'')"
proof -
  have "provider (model example_config) \<in> {''openai'', ''anthropic''}"
    by (simp add: example_config_def anthropic_only_config_def)
  then obtain mdl where mdl: "get_model example_config None None = Inr mdl"
    using supported_provider_model by blast
  then obtain rt where rt: "create_runtime example_config None = Inr rt"
    by (simp add: create_runtime_def create_conversation_agent_def create_research_agent_def
        create_assist_agent_def)
  note facts = runtime_agents_ids_and_stores [OF rt]
  have f: "db_file (database example_config) = ''agno.db''"
    by (simp add: example_config_def anthropic_only_config_def)
  have ids: "map agent_id (agents rt) =
      [Some ''agno-smart-assistant'', Some ''research-agent'', Some ''assist-agent'']"
    using facts(2)
    by (simp add: CONVERSATION_AGENT_CONFIG_def RESEARCH_AGENT_CONFIG_def
        ASSIST_AGENT_CONFIG_def)
  have dbs: "map agent_db (agents rt) =
      [SqliteDb ''agno.db'' None, SqliteDb ''agno.db'' None, SqliteDb ''agno.db'' None]"
    using facts(4) by (simp add: f numeral_3_eq_3)
  have nd: "\<not> distinct (map agent_db (agents rt))"
    unfolding dbs by simp
  have b: "agent_db (projr (build example_config
       (example_required \<lparr> req_db_table := ''assist-agent'' \<rparr>) no_overrides)) =
     SqliteDb ''agno.db'' (Some ''assist-agent'')"
    by (simp add: build_with_model mdl f no_overrides_def)
  from ids dbs nd b show ?thesis
    unfolding rt by simp
qed

text \<open>
  Counterexample to C2 as stated: with OpenAI selected and only the Anthropic key set,
  the credential of the selected provider is empty, yet the configuration loads,
  \<open>get_model()\<close> returns an OpenAI client holding the empty key, and
  \<open>create_runtime()\<close> returns a runtime with three agents.
\<close>

theorem empty_selected_credential_counterexample:
  "AppConfig_from_env example_int_of_str anthropic_only_env = Inr anthropic_only_config \<and>
   provider (model anthropic_only_config) = ''openai'' \<and>
   openai_api_key (openai anthropic_only_config) = [] \<and>
   fst (call_get_model example_int_of_str anthropic_only_env None None None) =
     Inr (OpenAIChat ''gpt-4'' []) \<and>
   \<not> isl (fst (call_create_runtime example_int_of_str anthropic_only_env None None)) \<and>
   length (agents (projr (fst (call_create_runtime example_int_of_str anthropic_only_env None
     None)))) = 3"
proof -
  note load = anthropic_only_env_loads
  have m: "get_model anthropic_only_config None None = Inr (OpenAIChat ''gpt-4'' [])"
    by (simp add: get_model_def str_or_def anthropic_only_config_def)
  have p: "provider (model anthropic_only_config) = ''openai''"
    "openai_api_key (openai anthropic_only_config) = []"
    by (simp_all add: anthropic_only_config_def)
  have g: "fst (call_get_model example_int_of_str anthropic_only_env None None None) =
      Inr (OpenAIChat ''gpt-4'' [])"
    by (simp add: call_get_model_def with_config_load_succeeds [OF load] m)
  have "\<exists>rt. create_runtime anthropic_only_config None = Inr rt \<and> length (agents rt) = 3"
    by (simp add: create_runtime_def create_conversation_agent_def create_research_agent_def
        create_assist_agent_def m)
  then obtain rt where rt: "create_runtime anthropic_only_config None = Inr rt"
    "length (agents rt) = 3"
    by blast
  have r: "fst (call_create_runtime example_int_of_str anthropic_only_env None None) = Inr rt"
    by (simp add: call_create_runtime_def with_config_load_succeeds [OF load] rt(1))
  show ?thesis
    unfolding r using load p g rt(2) by simp
qed

text \<open>
  C2, amended. Loading the configuration fails exactly when both API keys are empty,
  whatever provider is selected; so when it succeeds at least one of the two keys is
  non-empty. When it fails, a call of \<open>get_model\<close> or of \<open>create_runtime\<close> in that
  process ends with the loading error before a model is resolved or an agent built, and
  the singleton stays unset.
\<close>

theorem config_load_fails_iff_both_keys_empty:
  "(isl (AppConfig_from_env int_of_str env) \<longleftrightarrow>
      getenv env ''OPENAI_API_KEY'' [] = [] \<and> getenv env ''ANTHROPIC_API_KEY'' [] = []) \<and>
   (\<forall>config. AppConfig_from_env int_of_str env = Inr config \<longrightarrow>
      openai_api_key (openai config) \<noteq> [] \<or> anthropic_api_key (anthropic config) \<noteq> []) \<and>
   (\<forall>e. AppConfig_from_env int_of_str env = Inl e \<longrightarrow>
      call_get_model int_of_str env None provider_arg model_id_arg = (Inl e, None) \<and>
      call_create_runtime int_of_str env None knowledge_failure = (Inl e, None))"
proof (intro conjI allI impI)
  show "isl (AppConfig_from_env int_of_str env) \<longleftrightarrow>
      getenv env ''OPENAI_API_KEY'' [] = [] \<and> getenv env ''ANTHROPIC_API_KEY'' [] = []"
    by (rule from_env_fails_iff)
next
  fix config
  assume "AppConfig_from_env int_of_str env = Inr config"
  then show "openai_api_key (openai config) \<noteq> [] \<or> anthropic_api_key (anthropic config) \<noteq> []"
    by (rule from_env_Inr_keys)
next
  fix e
  assume "AppConfig_from_env int_of_str env = Inl e"
  then show "call_get_model int_of_str env None provider_arg model_id_arg = (Inl e, None)"
    by (simp add: call_get_model_def with_config_load_fails)
next
  fix e
  assume "AppConfig_from_env int_of_str env = Inl e"
  then show "call_create_runtime int_of_str env None knowledge_failure = (Inl e, None)"
    by (simp add: call_create_runtime_def with_config_load_fails)
qed

text \<open>
  The empty environment, where the load fails, and the environment with the Anthropic
  key alone, where it succeeds.
\<close>

theorem config_load_fails_iff_both_keys_empty_witness:
  "isl (AppConfig_from_env example_int_of_str Map.empty) \<and>
   call_get_model example_int_of_str Map.empty None None None =
     (Inl (ValueError (no_api_key_message ''openai'')), None) \<and>
   call_create_runtime example_int_of_str Map.empty None None =
     (Inl (ValueError (no_api_key_message ''openai'')), None) \<and>
   \<not> isl (AppConfig_from_env example_int_of_str anthropic_only_env) \<and>
   anthropic_api_key (anthropic anthropic_only_config) \<noteq> []"
proof -
  note fails = config_load_fails_iff_both_keys_empty
    [where int_of_str = example_int_of_str and env = Map.empty and provider_arg = None
       and model_id_arg = None and knowledge_failure = None]
  note loads = config_load_fails_iff_both_keys_empty
    [where int_of_str = example_int_of_str and env = anthropic_only_env]
  have "getenv Map.empty ''OPENAI_API_KEY'' [] = [] \<and>
        getenv Map.empty ''ANTHROPIC_API_KEY'' [] = []"
    by (simp add: getenv_def)
  with fails have 1: "isl (AppConfig_from_env example_int_of_str Map.empty)"
    by blast
  from fails empty_env_fails have 2:
    "call_get_model example_int_of_str Map.empty None None None =
       (Inl (ValueError (no_api_key_message ''openai'')), None)"
    "call_create_runtime example_int_of_str Map.empty None None =
       (Inl (ValueError (no_api_key_message ''openai'')), None)"
    by blast+
  have "getenv anthropic_only_env ''ANTHROPIC_API_KEY'' [] \<noteq> []"
    by (simp add: getenv_def anthropic_only_env_def)
  with loads have 3: "\<not> isl (AppConfig_from_env example_int_of_str anthropic_only_env)"
    by blast
  from loads anthropic_only_env_loads
  have "openai_api_key (openai anthropic_only_config) \<noteq> [] \<or>
        anthropic_api_key (anthropic anthropic_only_config) \<noteq> []"
    by blast
  then have 4: "anthropic_api_key (anthropic anthropic_only_config) \<noteq> []"
    by (simp add: anthropic_only_config_def)
  from 1 2 3 4 show ?thesis by (intro conjI)
qed

text \<open>
  C5. Let the construction of the knowledge base raise an error \<open>e\<close>, that is an
  instance of \<open>Exception\<close>. Then \<open>create_assist_agent\<close> can only fail with the error
  of \<open>get_model\<close>; if it returns an agent when the construction works, it returns
  the same agent without knowledge when the construction fails; and under a supported
  provider it returns the assist agent with no knowledge attached, and \<open>create_runtime\<close>
  returns the runtime of three agents whose third is that agent.
\<close>

theorem assist_agent_survives_knowledge_failure:
  assumes "is_Exception e"
  shows "(\<forall>x. create_assist_agent config (Some e) = Inl x \<longrightarrow>
            get_model config None None = Inl x) \<and>
         (\<forall>a. create_assist_agent config None = Inr a \<longrightarrow>
            create_assist_agent config (Some e) = Inr (a \<lparr> agent_knowledge := None \<rparr>)) \<and>
         (provider (model config) \<in> {''openai'', ''anthropic''} \<longrightarrow>
            (\<exists>a. create_assist_agent config (Some e) = Inr a \<and> agent_knowledge a = None \<and>
                 agent_id a = Some ''assist-agent'') \<and>
            (\<exists>rt. create_runtime config (Some e) = Inr rt \<and> length (agents rt) = 3 \<and>
                  agent_id (agents rt ! 2) = Some ''assist-agent'' \<and>
                  agent_knowledge (agents rt ! 2) = None))"
proof (intro conjI allI impI)
  fix x
  assume "create_assist_agent config (Some e) = Inl x"
  then show "get_model config None None = Inl x"
    by (simp add: create_assist_agent_caught [OF assms] split: sum.splits)
next
  fix a
  assume "create_assist_agent config None = Inr a"
  then show "create_assist_agent config (Some e) = Inr (a \<lparr> agent_knowledge := None \<rparr>)"
    by (auto simp add: create_assist_agent_caught [OF assms] create_assist_agent_built
        split: sum.splits)
next
  assume "provider (model config) \<in> {''openai'', ''anthropic''}"
  then obtain mdl where "get_model config None None = Inr mdl"
    using supported_provider_model by blast
  then show "\<exists>a. create_assist_agent config (Some e) = Inr a \<and> agent_knowledge a = None \<and>
                 agent_id a = Some ''assist-agent''"
    by (simp add: create_assist_agent_caught [OF assms])
next
  assume "provider (model config) \<in> {''openai'', ''anthropic''}"
  then obtain mdl where mdl: "get_model config None None = Inr mdl"
    using supported_provider_model by blast
  then obtain c r a where c: "create_conversation_agent config = Inr c"
    and r: "create_research_agent config = Inr r"
    and a: "create_assist_agent config (Some e) = Inr a" "agent_knowledge a = None"
       "agent_id a = Some ''assist-agent''"
    by (simp add: create_conversation_agent_eq create_research_agent_eq
        create_assist_agent_caught [OF assms])
  from create_runtime_succeeds [OF c r a(1)] obtain rt where
    "create_runtime config (Some e) = Inr rt" "agents rt = [c, r, a]"
    by blast
  with a(2,3) show "\<exists>rt. create_runtime config (Some e) = Inr rt \<and> length (agents rt) = 3 \<and>
                  agent_id (agents rt ! 2) = Some ''assist-agent'' \<and>
                  agent_knowledge (agents rt ! 2) = None"
    by (intro exI [of _ rt]) simp
qed

text \<open>An index backend that is unavailable, under the example configuration.\<close>

theorem assist_agent_survives_knowledge_failure_witness:
  "(\<exists>a. create_assist_agent example_config (Some (OtherException ''index backend unavailable''))
          = Inr a \<and> agent_knowledge a = None) \<and>
   (\<exists>rt. create_runtime example_config (Some (OtherException ''index backend unavailable''))
          = Inr rt \<and> length (agents rt) = 3 \<and> agent_knowledge (agents rt ! 2) = None)"
proof -
  have e: "is_Exception (OtherException ''index backend unavailable'')"
    by simp
  have p: "provider (model example_config) \<in> {''openai'', ''anthropic''}"
    by (simp add: example_config_def anthropic_only_config_def)
  from assist_agent_survives_knowledge_failure [OF e, of example_config] p
  show ?thesis by blast
qed

text \<open>
  C7 on the example configuration: the conversation agent is built with no knowledge and
  a history window of 3, as the claim says, but no \<open>tools\<close> argument is passed at all,
  while the research agent, built beside it, receives the MCP tools.
\<close>

theorem conversation_agent_has_no_tools:
  "\<not> isl (create_conversation_agent example_config) \<and>
   agent_tools (projr (create_conversation_agent example_config)) = None \<and>
   agent_knowledge (projr (create_conversation_agent example_config)) = None \<and>
   num_history_runs (projr (create_conversation_agent example_config)) = Some 3 \<and>
   agent_tools (projr (create_research_agent example_config)) =
     Some [MCPTools ''streamable-http'' ''https://docs.agno.com/mcp'']"
proof -
  have m: "get_model example_config None None = Inr (OpenAIChat ''gpt-4'' ''sk-test-1234'')"
    by (simp add: get_model_def str_or_def example_config_def anthropic_only_config_def)
  have u: "mcp_url (agent example_config) = ''https://docs.agno.com/mcp''"
    by (simp add: example_config_def anthropic_only_config_def)
  show ?thesis
    by (simp add: create_conversation_agent_eq create_research_agent_eq m u)
qed

text \<open>The same for every configuration under which the agent is built.\<close>

lemma conversation_agent_never_has_tools:
  "create_conversation_agent config = Inr c \<Longrightarrow>
   agent_tools c = None \<and> agent_knowledge c = None \<and> num_history_runs c = Some 3"
  by (simp add: conversation_agent_fields)

subsection \<open>Masking of the API keys\<close>

text \<open>
  What \<open>to_dict\<close> shows of a key is a function of its last four characters, and a key
  of more than four characters is shown as three stars and four characters.
\<close>

lemma last4_empty_iff: "last4 s = [] \<longleftrightarrow> s = []"
  by (cases s) (simp_all add: last4_def)

lemma mask_key_last4: "last4 s = last4 t \<Longrightarrow> mask_key s = mask_key t"
  using last4_empty_iff [of s] last4_empty_iff [of t] by (simp add: mask_key_def)

lemma to_dict_depends_on_last4:
  assumes "last4 (openai_api_key (openai c1)) = last4 (openai_api_key (openai c2))"
    and "last4 (anthropic_api_key (anthropic c1)) = last4 (anthropic_api_key (anthropic c2))"
    and "c1 \<lparr> openai := x, anthropic := y \<rparr> = c2 \<lparr> openai := x, anthropic := y \<rparr>"
  shows "to_dict c1 = to_dict c2"
proof -
  from assms(3) have "name c1 = name c2" "version c1 = version c2"
    "description c1 = description c2" "model c1 = model c2" "database c1 = database c2"
    "agent c1 = agent c2" "server c1 = server c2"
    by (cases c1, cases c2, simp)+
  with mask_key_last4 [OF assms(1)] mask_key_last4 [OF assms(2)]
  show ?thesis by (simp add: to_dict_def)
qed

lemma mask_key_long: "4 < length s \<Longrightarrow> mask_key s = ''***'' @ last4 s \<and> length (last4 s) = 4"
  by (auto simp add: mask_key_def last4_def)

text \<open>
  C10 on a key of four characters: the dictionary holds the key whole, after the three
  stars.
\<close>

theorem to_dict_shows_short_key_whole:
  "to_dict (example_config \<lparr> openai := \<lparr> openai_api_key = ''abcd'' \<rparr> \<rparr>) = PyDict [
     (''app'', PyDict [
        (''name'', PyStr ''Agno Smart Assistant''),
        (''version'', PyStr ''1.0.0''),
        (''description'', PyStr ''Multi-agent AI assistant powered by Agno'')]),
     (''model'', PyDict [(''provider'', PyStr ''openai''), (''model_id'', PyStr ''gpt-4'')]),
     (''openai'', PyDict [(''api_key'', PyStr (''***'' @ ''abcd''))]),
     (''anthropic'', PyDict [(''api_key'', PyStr ''***NOT SET'')]),
     (''database'', PyDict [
        (''db_file'', PyStr ''agno.db''), (''vector_db_file'', PyStr ''vector.db'')]),
     (''agent'', PyDict [
        (''model_id'', PyStr ''gpt-4''), (''mcp_url'', PyStr ''https://docs.agno.com/mcp'')]),
     (''server'', PyDict [
        (''host'', PyStr ''0.0.0.0''), (''port'', PyInt 8000), (''reload'', PyBool True),
        (''log_level'', PyStr ''info'')])]"
  by (simp add: to_dict_def mask_key_def last4_def example_config_def anthropic_only_config_def)

end
